theory Spec2Isabelle
  imports
    Main
    "HOL-Library.Word"
    "HOL-Library.Char_ord"
    "HOL-Library.List_Lexorder"
    "HOL-Library.Multiset"
begin

unbundle bit_operations_syntax


section \<open>Strings\<close>

text \<open>
  Go strings are byte sequences; they are modelled as \<^typ>\<open>string\<close> (lists of 8-bit
  characters).  Go's \<open><\<close> on strings is the bytewise lexicographic order, which is the
  order of \<^typ>\<open>char list\<close> here.  The functions of this section are the ones of the Go
  standard library (\<open>strings\<close>, \<open>strconv\<close>, \<open>path/filepath\<close> on a Unix system) that the
  release engine calls.
\<close>

definition HasPrefix :: "string \<Rightarrow> string \<Rightarrow> bool" where
  "HasPrefix s p = (take (length p) s = p)"

definition HasSuffix :: "string \<Rightarrow> string \<Rightarrow> bool" where
  "HasSuffix s p = (length p \<le> length s \<and> drop (length s - length p) s = p)"

definition TrimPrefix :: "string \<Rightarrow> string \<Rightarrow> string" where
  "TrimPrefix s p = (if HasPrefix s p then drop (length p) s else s)"

text \<open>\<open>strings.LastIndex s "c"\<close> for a one-byte separator: \<open>None\<close> stands for \<open>-1\<close>.\<close>

fun LastIndex :: "string \<Rightarrow> char \<Rightarrow> nat option" where
  "LastIndex [] c = None"
| "LastIndex (x # xs) c =
     (case LastIndex xs c of
        Some i \<Rightarrow> Some (Suc i)
      | None \<Rightarrow> (if x = c then Some 0 else None))"

definition isDigit :: "char \<Rightarrow> bool" where
  "isDigit c = (CHR ''0'' \<le> c \<and> c \<le> CHR ''9'')"

definition digitVal :: "char \<Rightarrow> nat" where
  "digitVal c = of_char c - 48"

definition digitsVal :: "string \<Rightarrow> nat" where
  "digitsVal ds = foldl (\<lambda>n c. 10 * n + digitVal c) 0 ds"

datatype error =
    InvalidModulePath
  | SemverParseFailed
  | NotAPreRelease
  | VersionNotIncreasing
  | AtoiSyntax
  | AtoiRange
  | PreReleaseNumberParseFailed
  | OutsideRoot
  | DuplicateModule
  | UntaggedModuleHasDependents
  | RootModuleMetadataNotFound
  | InvalidModuleTag
  | NilDereference
  | CannotMakeRelative

text \<open>
  \<open>strconv.Atoi\<close>: an optional sign, at least one decimal digit, and a value in the range
  of Go's \<open>int\<close> (64 bits on the platforms the tools are built for).
\<close>

definition Atoi :: "string \<Rightarrow> error + int" where
  "Atoi s =
     (let neg = (s \<noteq> [] \<and> hd s = CHR ''-'');
          ds = (if s \<noteq> [] \<and> (hd s = CHR ''-'' \<or> hd s = CHR ''+'') then tl s else s)
      in if ds = [] \<or> \<not> list_all isDigit ds then Inl AtoiSyntax
         else let n = int (digitsVal ds); v = (if neg then - n else n)
              in if v < - (2 ^ 63) \<or> 2 ^ 63 - 1 < v then Inl AtoiRange else Inr v)"

fun natToDigits :: "nat \<Rightarrow> string" where
  "natToDigits n =
     (if n < 10 then [char_of (48 + n)]
      else natToDigits (n div 10) @ [char_of (48 + n mod 10)])"

declare natToDigits.simps [simp del]

definition Itoa :: "int \<Rightarrow> string" where
  "Itoa i = (if i < 0 then CHR ''-'' # natToDigits (nat (- i)) else natToDigits (nat i))"

text \<open>Addition of one on Go's 64-bit \<open>int\<close>, wrapping around at the top of the range.\<close>

definition intSucc :: "int \<Rightarrow> int" where
  "intSucc i = (i + 1 + 2 ^ 63) mod 2 ^ 64 - 2 ^ 63"

fun splitOn :: "char \<Rightarrow> string \<Rightarrow> string list" where
  "splitOn c [] = [[]]"
| "splitOn c (x # xs) =
     (if x = c then [] # splitOn c xs
      else (case splitOn c xs of [] \<Rightarrow> [[x]] | y # ys \<Rightarrow> (x # y) # ys))"

fun joinWith :: "char \<Rightarrow> string list \<Rightarrow> string" where
  "joinWith c [] = []"
| "joinWith c [x] = x"
| "joinWith c (x # y # ys) = x @ c # joinWith c (y # ys)"

section \<open>Semantic versions\<close>

text \<open>
  Modelled from the spec: package \<open>internal/semver\<close> (\<open>Parse\<close>, \<open>Canonical\<close>, \<open>Compare\<close>
  and the \<open>Parsed\<close> structure with its \<open>String\<close> method) is not among the sources.  The
  spec speaks of "semantic-version ordering" and of versions that "fail to parse"; the
  definitions below are the grammar and the precedence rules of Semantic Versioning 2.0.0
  with the mandatory leading \<open>v\<close> of Go module versions, which is what the release engine
  relies on (a version without the leading \<open>v\<close> does not parse, build metadata is dropped
  by \<open>Canonical\<close>, a missing minor or patch number is read as \<open>0\<close>).
\<close>

record Parsed =
  Major :: string
  Minor :: string
  Patch :: string
  Short :: string
  Prerelease :: string
  Build :: string

definition emptyParsed :: Parsed where
  "emptyParsed = \<lparr>Major = [], Minor = [], Patch = [], Short = [], Prerelease = [], Build = []\<rparr>"

definition parseInt :: "string \<Rightarrow> (string \<times> string) option" where
  "parseInt v =
     (if v = [] \<or> \<not> isDigit (hd v) then None
      else let t = takeWhile isDigit v
           in if hd v = CHR ''0'' \<and> length t \<noteq> 1 then None
              else Some (t, dropWhile isDigit v))"

definition isIdentChar :: "char \<Rightarrow> bool" where
  "isIdentChar c =
     (CHR ''A'' \<le> c \<and> c \<le> CHR ''Z'' \<or> CHR ''a'' \<le> c \<and> c \<le> CHR ''z''
      \<or> CHR ''0'' \<le> c \<and> c \<le> CHR ''9'' \<or> c = CHR ''-'')"

definition isNum :: "string \<Rightarrow> bool" where
  "isNum v = list_all isDigit v"

definition isBadNum :: "string \<Rightarrow> bool" where
  "isBadNum v = (list_all isDigit v \<and> 1 < length v \<and> hd v = CHR ''0'')"

definition parsePrerelease :: "string \<Rightarrow> (string \<times> string) option" where
  "parsePrerelease v =
     (if v = [] \<or> hd v \<noteq> CHR ''-'' then None
      else let body = takeWhile (\<lambda>c. c \<noteq> CHR ''+'') (tl v);
               rest = dropWhile (\<lambda>c. c \<noteq> CHR ''+'') (tl v)
           in if list_all (\<lambda>c. isIdentChar c \<or> c = CHR ''.'') body
                 \<and> list_all (\<lambda>d. d \<noteq> [] \<and> \<not> isBadNum d) (splitOn (CHR ''.'') body)
              then Some (CHR ''-'' # body, rest) else None)"

definition parseBuild :: "string \<Rightarrow> (string \<times> string) option" where
  "parseBuild v =
     (if v = [] \<or> hd v \<noteq> CHR ''+'' then None
      else if list_all (\<lambda>c. isIdentChar c \<or> c = CHR ''.'') (tl v)
              \<and> list_all (\<lambda>d. d \<noteq> []) (splitOn (CHR ''.'') (tl v))
           then Some (v, []) else None)"

definition parsePatchTail :: "Parsed \<Rightarrow> string \<Rightarrow> Parsed \<times> bool" where
  "parsePatchTail p v =
     (let pre = (if v \<noteq> [] \<and> hd v = CHR ''-'' then parsePrerelease v else Some ([], v))
      in case pre of
           None \<Rightarrow> (p, False)
         | Some (pr, v1) \<Rightarrow>
             (let bld = (if v1 \<noteq> [] \<and> hd v1 = CHR ''+'' then parseBuild v1 else Some ([], v1))
              in case bld of
                   None \<Rightarrow> (p\<lparr>Prerelease := pr\<rparr>, False)
                 | Some (b, v2) \<Rightarrow>
                     (p\<lparr>Prerelease := pr, Build := b\<rparr>, v2 = [])))"

definition Parse :: "string \<Rightarrow> Parsed \<times> bool" where
  "Parse v =
     (if v = [] \<or> hd v \<noteq> CHR ''v'' then (emptyParsed, False)
      else case parseInt (tl v) of
        None \<Rightarrow> (emptyParsed, False)
      | Some (ma, v1) \<Rightarrow>
         (let p1 = emptyParsed\<lparr>Major := ma\<rparr>
          in if v1 = [] then (p1\<lparr>Minor := ''0'', Patch := ''0'', Short := ''.0.0''\<rparr>, True)
             else if hd v1 \<noteq> CHR ''.'' then (p1, False)
             else case parseInt (tl v1) of
               None \<Rightarrow> (p1, False)
             | Some (mi, v2) \<Rightarrow>
                (let p2 = p1\<lparr>Minor := mi\<rparr>
                 in if v2 = [] then (p2\<lparr>Patch := ''0'', Short := ''.0''\<rparr>, True)
                    else if hd v2 \<noteq> CHR ''.'' then (p2, False)
                    else case parseInt (tl v2) of
                      None \<Rightarrow> (p2, False)
                    | Some (pa, v3) \<Rightarrow> parsePatchTail (p2\<lparr>Patch := pa\<rparr>) v3)))"

definition Canonical :: "string \<Rightarrow> string" where
  "Canonical v =
     (case Parse v of
        (p, ok) \<Rightarrow>
          if \<not> ok then []
          else if Build p \<noteq> [] then take (length v - length (Build p)) v
          else if Short p \<noteq> [] then v @ Short p
          else v)"

definition ParsedString :: "Parsed \<Rightarrow> string" where
  "ParsedString p =
     ''v'' @ Major p @ ''.'' @ Minor p @ ''.'' @ Patch p @ Prerelease p @ Build p"

definition compareInt :: "string \<Rightarrow> string \<Rightarrow> int" where
  "compareInt x y =
     (if x = y then 0
      else if length x < length y then - 1
      else if length y < length x then 1
      else if x < y then - 1 else 1)"

fun compareIdents :: "string list \<Rightarrow> string list \<Rightarrow> int" where
  "compareIdents [] ys = - 1"
| "compareIdents (dx # xs) [] = 1"
| "compareIdents (dx # xs) (dy # ys) =
     (if dx \<noteq> dy then
        (if isNum dx \<noteq> isNum dy then (if isNum dx then - 1 else 1)
         else if isNum dx \<and> length dx < length dy then - 1
         else if isNum dx \<and> length dy < length dx then 1
         else if dx < dy then - 1 else 1)
      else compareIdents xs ys)"

definition comparePrerelease :: "string \<Rightarrow> string \<Rightarrow> int" where
  "comparePrerelease x y =
     (if x = y then 0
      else if x = [] then 1
      else if y = [] then - 1
      else compareIdents (splitOn (CHR ''.'') (tl x)) (splitOn (CHR ''.'') (tl y)))"

definition Compare :: "string \<Rightarrow> string \<Rightarrow> int" where
  "Compare v w =
     (case (Parse v, Parse w) of
        ((pv, ok1), (pw, ok2)) \<Rightarrow>
          if \<not> ok1 \<and> \<not> ok2 then 0
          else if \<not> ok1 then - 1
          else if \<not> ok2 then 1
          else if compareInt (Major pv) (Major pw) \<noteq> 0 then compareInt (Major pv) (Major pw)
          else if compareInt (Minor pv) (Minor pw) \<noteq> 0 then compareInt (Minor pv) (Minor pw)
          else if compareInt (Patch pv) (Patch pw) \<noteq> 0 then compareInt (Patch pv) (Patch pw)
          else comparePrerelease (Prerelease pv) (Prerelease pw))"

section \<open>Module configuration and changelog annotations\<close>

text \<open>\<open>repotools.ModuleConfig\<close>: the per-module release configuration.\<close>

record ModuleConfig =
  NoTag :: bool
  PreRelease :: string
  MetadataPackage :: string

text \<open>
  Modelled from the spec: package \<open>changelog\<close> is not among the sources.  The release
  engine uses its constants \<open>DefaultBump\<close>, \<open>PatchBump\<close>, \<open>MinorBump\<close> and \<open>ReleaseBump\<close>,
  the field \<open>ID\<close> of an annotation, and \<open>GetVersionIncrement\<close>.  Following the spec, an
  annotation carries an identifier, a bump-size classification and the module paths it
  applies to, and the bump size of a list of annotations is the highest-ranking one, where
  release promotion outranks minor, which outranks patch and the default.
\<close>

datatype SemVerIncrement = DefaultBump | PatchBump | MinorBump | ReleaseBump

record Annotation =
  ID :: string
  Bump :: SemVerIncrement
  Modules :: "string list"

fun bumpRank :: "SemVerIncrement \<Rightarrow> nat" where
  "bumpRank DefaultBump = 0"
| "bumpRank PatchBump = 1"
| "bumpRank MinorBump = 2"
| "bumpRank ReleaseBump = 3"

definition GetVersionIncrement :: "Annotation list \<Rightarrow> SemVerIncrement" where
  "GetVersionIncrement annotations =
     foldl (\<lambda>v a. if bumpRank v < bumpRank (Bump a) then Bump a else v) DefaultBump annotations"

section \<open>Module paths\<close>

text \<open>
  \<open>module.SplitPathVersion\<close> of the external library \<open>golang.org/x/mod\<close>: splits a module
  path into the prefix and the major-version suffix (\<open>/vN\<close> with \<open>N \<ge> 2\<close>, or \<open>.vN\<close> for
  \<open>gopkg.in\<close> paths).  The third component is the \<open>ok\<close> result.
\<close>

definition splitGopkgIn :: "string \<Rightarrow> string \<times> string \<times> bool" where
  "splitGopkgIn path =
     (let n = (if HasSuffix path ''-unstable'' then length path - 9 else length path);
          i = n - length (takeWhile isDigit (rev (take n path)))
      in if i \<le> 1 \<or> path ! (i - 1) \<noteq> CHR ''v'' \<or> path ! (i - 2) \<noteq> CHR ''.''
         then (path, [], False)
         else let pathMajor = drop (i - 2) path
              in if length pathMajor \<le> 2
                    \<or> (pathMajor ! 2 = CHR ''0'' \<and> pathMajor \<noteq> ''.v0''
                        \<and> pathMajor \<noteq> ''.v0-unstable'')
                 then (path, [], False)
                 else (take (i - 2) path, pathMajor, True))"

definition SplitPathVersion :: "string \<Rightarrow> string \<times> string \<times> bool" where
  "SplitPathVersion path =
     (if HasPrefix path ''gopkg.in/'' then splitGopkgIn path
      else let tail = takeWhile (\<lambda>c. isDigit c \<or> c = CHR ''.'') (rev path);
               dot = (CHR ''.'' \<in> set tail);
               i = length path - length tail
           in if i \<le> 1 \<or> i = length path \<or> path ! (i - 1) \<noteq> CHR ''v''
                 \<or> path ! (i - 2) \<noteq> CHR ''/''
              then (path, [], True)
              else let pathMajor = drop (i - 2) path
                   in if dot \<or> length pathMajor \<le> 2 \<or> pathMajor ! 2 = CHR ''0''
                         \<or> pathMajor = ''/v1''
                      then (path, [], False)
                      else (take (i - 2) path, pathMajor, True))"

section \<open>The version calculator\<close>

definition getNewModuleVersion ::
  "string \<Rightarrow> SemVerIncrement \<Rightarrow> ModuleConfig \<Rightarrow> string \<Rightarrow> string" where
  "getNewModuleVersion pathMajor increment config preReleaseIdentifier =
     (let nextVersion = (if pathMajor = [] then ''v1.0.0'' else pathMajor @ ''.0.0'');
          isPreRelease = (preReleaseIdentifier \<noteq> [])
      in if increment = ReleaseBump \<and> \<not> isPreRelease then nextVersion
         else let identifier =
                    (if preReleaseIdentifier \<noteq> [] then preReleaseIdentifier
                     else PreRelease config)
              in if identifier \<noteq> [] then nextVersion @ ''-'' @ identifier
                 else nextVersion @ ''-preview'')"

definition incrementStrInt :: "string \<Rightarrow> error + string" where
  "incrementStrInt v =
     (case Atoi v of Inl e \<Rightarrow> Inl e | Inr i \<Rightarrow> Inr (Itoa (intSucc i)))"

definition formatPreRelease :: "string \<Rightarrow> string" where
  "formatPreRelease identifier =
     (if \<not> HasPrefix identifier ''-'' then ''-'' @ identifier else identifier)"

definition incrementPrerelease :: "string \<Rightarrow> string \<Rightarrow> error + string" where
  "incrementPrerelease prerelease identifier0 =
     (let identifier =
            (if \<not> HasSuffix identifier0 ''-'' then ''-'' @ identifier0 else identifier0)
      in if identifier \<noteq> [] \<and> \<not> HasPrefix prerelease identifier then Inr identifier
         else case LastIndex prerelease (CHR ''.'') of
                None \<Rightarrow> Inr (prerelease @ ''.1'')
              | Some index \<Rightarrow>
                  (case Atoi (drop (index + 1) prerelease) of
                     Inl e \<Rightarrow> Inl PreReleaseNumberParseFailed
                   | Inr i \<Rightarrow> Inr (take (index + 1) prerelease @ Itoa (intSucc i))))"

definition calculatePreReleaseVersion ::
  "Parsed \<Rightarrow> SemVerIncrement \<Rightarrow> ModuleConfig \<Rightarrow> string \<Rightarrow> error + string" where
  "calculatePreReleaseVersion parsed increment config preReleaseIdentifier =
     (if increment = ReleaseBump \<or> Prerelease parsed \<noteq> []
      then Inr (ParsedString (parsed\<lparr>Prerelease := formatPreRelease preReleaseIdentifier\<rparr>))
      else
        (let bumped =
               (case increment of
                  MinorBump \<Rightarrow>
                    (case incrementStrInt (Minor parsed) of
                       Inl e \<Rightarrow> Inl e
                     | Inr m \<Rightarrow> Inr (parsed\<lparr>Minor := m, Patch := ''0''\<rparr>))
                | DefaultBump \<Rightarrow>
                    (case incrementStrInt (Patch parsed) of
                       Inl e \<Rightarrow> Inl e
                     | Inr p \<Rightarrow> Inr (parsed\<lparr>Patch := p\<rparr>))
                | PatchBump \<Rightarrow>
                    (case incrementStrInt (Patch parsed) of
                       Inl e \<Rightarrow> Inl e
                     | Inr p \<Rightarrow> Inr (parsed\<lparr>Patch := p\<rparr>))
                | ReleaseBump \<Rightarrow> Inr parsed)
         in case bumped of
              Inl e \<Rightarrow> Inl e
            | Inr parsed' \<Rightarrow>
                Inr (ParsedString
                       (parsed'\<lparr>Prerelease :=
                          (if \<not> HasPrefix preReleaseIdentifier ''-''
                           then ''-'' @ preReleaseIdentifier
                           else preReleaseIdentifier)\<rparr>))))"

definition calculateNextVersion ::
  "Parsed \<Rightarrow> SemVerIncrement \<Rightarrow> ModuleConfig \<Rightarrow> error + string" where
  "calculateNextVersion parsed increment config =
     (if increment = ReleaseBump then
        (if Prerelease parsed = [] then Inl NotAPreRelease
         else Inr (ParsedString (parsed\<lparr>Prerelease := []\<rparr>)))
      else if Prerelease parsed \<noteq> [] then
        (case incrementPrerelease (Prerelease parsed) (PreRelease config) of
           Inl e \<Rightarrow> Inl e
         | Inr pr \<Rightarrow> Inr (ParsedString (parsed\<lparr>Prerelease := pr\<rparr>)))
      else if Prerelease parsed = [] \<and> PreRelease config \<noteq> [] then
        (case incrementStrInt (Patch parsed) of
           Inl e \<Rightarrow> Inl e
         | Inr p \<Rightarrow>
             Inr (ParsedString
                    (parsed\<lparr>Patch := p,
                       Prerelease :=
                         (if \<not> HasPrefix (PreRelease config) ''-''
                          then ''-'' @ PreRelease config else PreRelease config)\<rparr>)))
      else if increment = MinorBump then
        (case incrementStrInt (Minor parsed) of
           Inl e \<Rightarrow> Inl e
         | Inr m \<Rightarrow> Inr (ParsedString (parsed\<lparr>Minor := m, Patch := ''0''\<rparr>)))
      else
        (case incrementStrInt (Patch parsed) of
           Inl e \<Rightarrow> Inl e
         | Inr p \<Rightarrow> Inr (ParsedString (parsed\<lparr>Patch := p\<rparr>))))"

text \<open>
  The candidate version for a module that has a prior version: the branch of
  \<open>CalculateNextVersion\<close> between the parse of the prior version and the final check.
\<close>

definition candidateVersion ::
  "Parsed \<Rightarrow> SemVerIncrement \<Rightarrow> ModuleConfig \<Rightarrow> string \<Rightarrow> error + string" where
  "candidateVersion parsed increment config preReleaseIdentifier =
     (if preReleaseIdentifier \<noteq> []
      then calculatePreReleaseVersion parsed increment config preReleaseIdentifier
      else calculateNextVersion parsed increment config)"

definition CalculateNextVersion ::
  "string \<Rightarrow> string \<Rightarrow> ModuleConfig \<Rightarrow> Annotation list \<Rightarrow> string \<Rightarrow> error + string" where
  "CalculateNextVersion modulePath latest config annotations preReleaseIdentifier =
     (case SplitPathVersion modulePath of
        (prefix, pathMajor0, ok) \<Rightarrow>
          if \<not> ok then Inl InvalidModulePath
          else
            (let pathMajor = TrimPrefix pathMajor0 ''/'';
                 increment = GetVersionIncrement annotations
             in if latest = []
                then Inr (getNewModuleVersion pathMajor increment config preReleaseIdentifier)
                else
                  (case Parse (Canonical latest) of
                     (parsed, pok) \<Rightarrow>
                       if \<not> pok then Inl SemverParseFailed
                       else
                         (case candidateVersion parsed increment config preReleaseIdentifier of
                            Inl e \<Rightarrow> Inl e
                          | Inr next \<Rightarrow>
                              if Compare next latest \<le> 0 then Inl VersionNotIncreasing
                              else Inr next))))"

section \<open>File paths\<close>

text \<open>
  \<open>filepath.Split\<close>, \<open>filepath.Clean\<close> and \<open>filepath.Rel\<close> of the Go standard library, for
  Unix paths (separator \<open>/\<close>, no volume names).  \<open>Clean\<close> and \<open>Rel\<close> work on the elements
  of a path: the model splits the path at its separators where the library walks over the
  bytes.
\<close>

definition Split :: "string \<Rightarrow> string \<times> string" where
  "Split path =
     (case LastIndex path (CHR ''/'') of
        None \<Rightarrow> ([], path)
      | Some i \<Rightarrow> (take (i + 1) path, drop (i + 1) path))"

fun cleanElems :: "bool \<Rightarrow> string list \<Rightarrow> string list \<Rightarrow> string list" where
  "cleanElems rooted out [] = out"
| "cleanElems rooted out (e # es) =
     (if e = [] \<or> e = ''.'' then cleanElems rooted out es
      else if e = ''..'' then
        (if out \<noteq> [] \<and> last out \<noteq> ''..'' then cleanElems rooted (butlast out) es
         else if \<not> rooted then cleanElems rooted (out @ [''..'']) es
         else cleanElems rooted out es)
      else cleanElems rooted (out @ [e]) es)"

definition Clean :: "string \<Rightarrow> string" where
  "Clean path =
     (if path = [] then ''.''
      else let rooted = (hd path = CHR ''/'');
               out = (if rooted then ''/'' else [])
                     @ joinWith (CHR ''/'') (cleanElems rooted [] (splitOn (CHR ''/'') path))
           in if out = [] then ''.'' else out)"

definition pathElems :: "string \<Rightarrow> string list" where
  "pathElems p = (if p = [] then [] else if p = ''/'' then [[]] else splitOn (CHR ''/'') p)"

fun dropCommon :: "string list \<Rightarrow> string list \<Rightarrow> string list \<times> string list" where
  "dropCommon (b # bs) (t # ts) = (if b = t then dropCommon bs ts else (b # bs, t # ts))"
| "dropCommon bs ts = (bs, ts)"

definition Rel :: "string \<Rightarrow> string \<Rightarrow> error + string" where
  "Rel basepath targpath =
     (let base0 = Clean basepath; targ = Clean targpath
      in if targ = base0 then Inr ''.''
         else let base = (if base0 = ''.'' then [] else base0);
                  baseSlashed = (base \<noteq> [] \<and> hd base = CHR ''/'');
                  targSlashed = (targ \<noteq> [] \<and> hd targ = CHR ''/'')
              in if baseSlashed \<noteq> targSlashed then Inl CannotMakeRelative
                 else case dropCommon (pathElems base) (pathElems targ) of
                   (bs, ts) \<Rightarrow>
                     if bs \<noteq> [] \<and> ts \<noteq> [] \<and> hd bs = ''..'' then Inl CannotMakeRelative
                     else Inr (joinWith (CHR ''/'') (replicate (length bs) ''..'' @ ts)))"

section \<open>The module tree\<close>

datatype ModuleTreeNode =
  Node (absPath: string) (relPath: string) (subModules: "ModuleTreeNode list")
    (attributes: "string list")

record ModuleTree =
  RootPath :: string
  treeModules :: "ModuleTreeNode list"

definition NewModuleTree :: "string \<Rightarrow> ModuleTree" where
  "NewModuleTree root = \<lparr>RootPath = root, treeModules = []\<rparr>"

definition Path :: "ModuleTreeNode \<Rightarrow> string" where
  "Path n = relPath n"

definition HasAttribute :: "ModuleTreeNode \<Rightarrow> string \<Rightarrow> bool" where
  "HasAttribute n attribute = (attribute \<in> set (attributes n))"

text \<open>
  \<open>AncestorOf\<close> reads only the path of its node; \<open>ancestorPath\<close> is its body with that path
  as the argument, so that it can be asked of a node that is still being built.
\<close>

definition ancestorPath :: "string \<Rightarrow> string \<Rightarrow> bool" where
  "ancestorPath p path = (p = ''.'' \<or> p = path \<or> HasPrefix path (p @ ''/''))"

definition AncestorOf :: "ModuleTreeNode \<Rightarrow> string \<Rightarrow> bool" where
  "AncestorOf n path = ancestorPath (Path n) path"

text \<open>
  \<open>searchModuleTreeNodes\<close>: the outer loop walks down the layers, the inner loop takes the
  first node of the layer that is an ancestor of the path; \<open>parent\<close> is the last node
  taken (\<open>None\<close> for \<open>nil\<close>).
\<close>

fun searchFrom ::
  "ModuleTreeNode option \<Rightarrow> string \<Rightarrow> ModuleTreeNode list \<Rightarrow> ModuleTreeNode option" where
  "searchFrom parent path [] = parent"
| "searchFrom parent path (Node a r subs at # ms) =
     (if AncestorOf (Node a r subs at) path
      then searchFrom (Some (Node a r subs at)) path subs
      else searchFrom parent path ms)"

definition searchModuleTreeNodes :: "string \<Rightarrow> ModuleTreeNode list \<Rightarrow> ModuleTreeNode option" where
  "searchModuleTreeNodes path nodes = searchFrom None path nodes"

definition TreeSearch :: "ModuleTree \<Rightarrow> string \<Rightarrow> ModuleTreeNode option" where
  "TreeSearch t path = searchModuleTreeNodes path (treeModules t)"

definition TreeGet :: "ModuleTree \<Rightarrow> string \<Rightarrow> ModuleTreeNode option" where
  "TreeGet t path =
     (case searchModuleTreeNodes path (treeModules t) of
        Some node \<Rightarrow> (if Path node = path then Some node else None)
      | None \<Rightarrow> None)"

definition Search :: "ModuleTreeNode \<Rightarrow> string \<Rightarrow> ModuleTreeNode option" where
  "Search n path = searchModuleTreeNodes path (subModules n)"

definition ParentOf :: "ModuleTreeNode \<Rightarrow> string \<Rightarrow> bool" where
  "ParentOf n path = (if \<not> AncestorOf n path then False else Search n path = None)"

definition Get :: "ModuleTreeNode \<Rightarrow> string \<Rightarrow> ModuleTreeNode option" where
  "Get n path =
     (if Path n = path then Some n
      else case searchModuleTreeNodes path (subModules n) of
             Some node \<Rightarrow> (if Path node = path then Some node else None)
           | None \<Rightarrow> None)"

subsection \<open>Insertion\<close>

text \<open>
  \<open>sort.Sort\<close> over \<open>sortableModuleTreeNodes\<close> orders a layer by \<open>relPath\<close>.  The library's
  sort is not stable; the nodes of a layer have different paths, so the sorted layer is
  the same for every sorting algorithm.
\<close>

definition sortNodes :: "ModuleTreeNode list \<Rightarrow> ModuleTreeNode list" where
  "sortNodes nodes = sort_key relPath nodes"

text \<open>
  The loop of \<open>Insert\<close> that moves the nodes of the layer lying under the new node:
  \<open>children\<close> is \<open>newNode.subModules\<close>, the result is the new node's children and what is
  left of the layer.
\<close>

fun reparent ::
  "string \<Rightarrow> ModuleTreeNode list \<Rightarrow> ModuleTreeNode list
     \<Rightarrow> ModuleTreeNode list \<times> ModuleTreeNode list" where
  "reparent newRel children [] = (children, [])"
| "reparent newRel children (n # ns) =
     (if \<not> ancestorPath newRel (Path n)
      then (case reparent newRel children ns of (c, rest) \<Rightarrow> (c, n # rest))
      else reparent newRel (sortNodes (children @ [n])) ns)"

definition placeNode ::
  "string \<Rightarrow> string \<Rightarrow> string list \<Rightarrow> ModuleTreeNode list
     \<Rightarrow> ModuleTreeNode \<times> ModuleTreeNode list" where
  "placeNode modulePath moduleRelPath attrs nodes =
     (case reparent moduleRelPath [] nodes of
        (children, rest) \<Rightarrow>
          (let newNode = Node modulePath moduleRelPath children attrs
           in (newNode, sortNodes (rest @ [newNode]))))"

text \<open>The first node of a layer that is an ancestor of the path, with what stands around it.\<close>

fun splitAncestor ::
  "string \<Rightarrow> ModuleTreeNode list
     \<Rightarrow> (ModuleTreeNode list \<times> ModuleTreeNode \<times> ModuleTreeNode list) option" where
  "splitAncestor path [] = None"
| "splitAncestor path (m # ms) =
     (if AncestorOf m path then Some ([], m, ms)
      else case splitAncestor path ms of
             None \<Rightarrow> None
           | Some (pre, x, post) \<Rightarrow> Some (m # pre, x, post))"


function insertNodes ::
  "string \<Rightarrow> string \<Rightarrow> string list \<Rightarrow> ModuleTreeNode list
     \<Rightarrow> ModuleTreeNode \<times> ModuleTreeNode list" where
  "insertNodes modulePath moduleRelPath attrs nodes =
     (case splitAncestor moduleRelPath nodes of
        None \<Rightarrow> placeNode modulePath moduleRelPath attrs nodes
      | Some (pre, m, post) \<Rightarrow>
          (case insertNodes modulePath moduleRelPath attrs (subModules m) of
             (newNode, subs) \<Rightarrow>
               (newNode, pre @ Node (absPath m) (relPath m) subs (attributes m) # post)))"
  by pat_completeness auto
termination
proof (relation "measure (\<lambda>(modulePath, moduleRelPath, attrs, nodes). size_list size nodes)")
  show "wf (measure (\<lambda>(modulePath, moduleRelPath, attrs, nodes). size_list size nodes))"
    by simp
next
  fix modulePath moduleRelPath :: string and attrs :: "string list"
    and nodes :: "ModuleTreeNode list" and x2 pre y m post
  assume found: "splitAncestor moduleRelPath nodes = Some x2" "(pre, y) = x2" "(m, post) = y"
  have "splitAncestor p ns = Some (a, b, c) \<Longrightarrow> ns = a @ b # c" for p ns a b c
    by (induction ns arbitrary: a) (auto split: if_splits option.splits)
  with found have "nodes = pre @ m # post"
    by auto
  moreover have "size_list size (subModules m) < size m"
    by (cases m) simp
  ultimately show "((modulePath, moduleRelPath, attrs, subModules m),
      (modulePath, moduleRelPath, attrs, nodes))
    \<in> measure (\<lambda>(modulePath, moduleRelPath, attrs, nodes). size_list size nodes)"
    by simp
qed

declare insertNodes.simps [simp del]

definition Insert ::
  "ModuleTree \<Rightarrow> string \<Rightarrow> string list \<Rightarrow> error + ModuleTreeNode \<times> ModuleTree" where
  "Insert t modulePath attrs =
     (case (if RootPath t \<noteq> [] then Rel (RootPath t) modulePath else Inr modulePath) of
        Inl e \<Rightarrow> Inl OutsideRoot
      | Inr moduleRelPath \<Rightarrow>
          if TreeGet t moduleRelPath \<noteq> None then Inl DuplicateModule
          else case insertNodes modulePath moduleRelPath attrs (treeModules t) of
                 (newNode, nodes) \<Rightarrow> Inr (newNode, t\<lparr>treeModules := nodes\<rparr>))"

text \<open>A sequence of insertions, stopping at the first error.\<close>

fun insertAll :: "ModuleTree \<Rightarrow> (string \<times> string list) list \<Rightarrow> error + ModuleTree" where
  "insertAll t [] = Inr t"
| "insertAll t ((modulePath, attrs) # rest) =
     (case Insert t modulePath attrs of
        Inl e \<Rightarrow> Inl e
      | Inr (newNode, t') \<Rightarrow> insertAll t' rest)"


subsection \<open>Iteration\<close>

text \<open>
  The iterator is its stack; the top of the stack is the end of the list, as in
  \<open>moduleTreeNodeStack\<close>.
\<close>

type_synonym ModuleTreeIterator = "ModuleTreeNode list"

definition PushReverse :: "ModuleTreeNode list \<Rightarrow> ModuleTreeNode list \<Rightarrow> ModuleTreeNode list" where
  "PushReverse stack nodes = stack @ rev nodes"

definition Pop :: "ModuleTreeNode list \<Rightarrow> ModuleTreeNode option \<times> ModuleTreeNode list" where
  "Pop stack = (if stack = [] then (None, stack) else (Some (last stack), butlast stack))"

definition newModuleTreeNodesIterator :: "ModuleTreeNode list \<Rightarrow> ModuleTreeIterator" where
  "newModuleTreeNodesIterator nodes = PushReverse [] nodes"

definition Next :: "ModuleTreeIterator \<Rightarrow> ModuleTreeNode option \<times> ModuleTreeIterator" where
  "Next it =
     (case Pop it of
        (None, stack) \<Rightarrow> (None, stack)
      | (Some n, stack) \<Rightarrow> (Some n, PushReverse stack (subModules n)))"

text \<open>The loop that calls \<open>Next\<close> until it returns \<open>nil\<close> and appends each node to \<open>list\<close>.\<close>

function iterate :: "ModuleTreeIterator \<Rightarrow> ModuleTreeNode list \<Rightarrow> ModuleTreeNode list" where
  "iterate it list =
     (case Next it of
        (None, it') \<Rightarrow> list
      | (Some node, it') \<Rightarrow> iterate it' (list @ [node]))"
  by pat_completeness auto
termination
proof (relation "measure (\<lambda>(it, list). size_list size it)")
  show "wf (measure (\<lambda>(it, list). size_list size it))"
    by simp
next
  fix it list :: "ModuleTreeNode list" and x y node
  assume step: "(x, y) = Next it" "x = Some node"
  then have ne: "it \<noteq> []" and node: "node = last it"
    and y: "y = butlast it @ rev (subModules node)"
    by (auto simp: Next_def Pop_def PushReverse_def split: if_splits)
  have "size_list size (rev (subModules node)) < size node"
    by (cases node) (simp add: size_list_conv_sum_list rev_map [symmetric])
  moreover from ne node have "size_list size it = size_list size (butlast it) + Suc (size node)"
    by (induction it) auto
  ultimately show "((y, list @ [node]), (it, list)) \<in> measure (\<lambda>(it, list). size_list size it)"
    using y by simp
qed

declare iterate.simps [simp del]

definition NodeList :: "ModuleTreeNode \<Rightarrow> ModuleTreeNode list" where
  "NodeList n = iterate (newModuleTreeNodesIterator (subModules n)) []"

definition TreeIterator :: "ModuleTree \<Rightarrow> ModuleTreeIterator" where
  "TreeIterator t = newModuleTreeNodesIterator (treeModules t)"

definition TreeList :: "ModuleTree \<Rightarrow> ModuleTreeNode list" where
  "TreeList t = foldl (\<lambda>list n. (list @ [n]) @ NodeList n) [] (treeModules t)"


section \<open>The change filter\<close>

definition IsGoSource :: "string \<Rightarrow> bool" where
  "IsGoSource name = (\<not> HasPrefix name ''.'' \<and> HasSuffix name ''.go'')"

definition IsGoMod :: "string \<Rightarrow> bool" where
  "IsGoMod name = (name = ''go.mod'')"

record modDir =
  filepaths :: "string list"
  relevant :: bool

text \<open>
  \<open>dirCache\<close> is a Go map; it is kept as an association list with one entry per key, in
  the order the keys were added.  The last loop of \<open>FilterModuleFiles\<close> ranges over the map
  in an order Go does not fix and sorts what it collected, so the order of the entries
  does not show in the result.
\<close>

fun cacheUpdate :: "string \<Rightarrow> modDir \<Rightarrow> (string \<times> modDir) list \<Rightarrow> (string \<times> modDir) list" where
  "cacheUpdate k v [] = [(k, v)]"
| "cacheUpdate k v ((k', v') # kvs) =
     (if k' = k then (k, v) # kvs else (k', v') # cacheUpdate k v kvs)"

definition filterFile ::
  "ModuleTreeNode \<Rightarrow> (string \<times> modDir) list \<Rightarrow> string \<Rightarrow> (string \<times> modDir) list" where
  "filterFile module dirCache filepathName =
     (case Split filepathName of
        (dir0, fileName) \<Rightarrow>
          (let dir = Clean dir0
           in if \<not> (IsGoSource fileName \<or> IsGoMod fileName) then dirCache
              else case map_of dirCache dir of
                Some v \<Rightarrow>
                  if \<not> relevant v then dirCache
                  else cacheUpdate dir (v\<lparr>filepaths := filepaths v @ [filepathName]\<rparr>) dirCache
              | None \<Rightarrow>
                  if \<not> ParentOf module dir
                  then cacheUpdate dir \<lparr>filepaths = [], relevant = False\<rparr> dirCache
                  else cacheUpdate dir \<lparr>filepaths = [filepathName], relevant = True\<rparr> dirCache))"

definition FilterModuleFiles :: "ModuleTreeNode \<Rightarrow> string list \<Rightarrow> string list \<times> error option" where
  "FilterModuleFiles module files =
     (let dirCache = foldl (filterFile module) [] files;
          relevantFiles = concat (map (\<lambda>(dir, d). filepaths d) (filter (\<lambda>(dir, d). relevant d) dirCache))
      in (sort relevantFiles, None))"

definition IsModuleChanged :: "ModuleTreeNode \<Rightarrow> string list \<Rightarrow> bool \<times> error option" where
  "IsModuleChanged module changes =
     (case FilterModuleFiles module changes of
        (changes', err) \<Rightarrow>
          if err \<noteq> None then (False, err) else (changes' \<noteq> [], None))"

section \<open>Module records and change flags\<close>

text \<open>
  \<open>ModuleChange\<close> is a 64-bit field; the three flags are the three highest bits
  (\<open>1 << (64 - 1 - iota)\<close>).
\<close>

type_synonym ModuleChange = "64 word"

definition SourceChange :: ModuleChange where
  "SourceChange = push_bit 63 1"

definition NewModule :: ModuleChange where
  "NewModule = push_bit 62 1"

definition DependencyUpdate :: ModuleChange where
  "DependencyUpdate = push_bit 61 1"

text \<open>
  \<open>release.Module\<close>.  Of the parsed \<open>go.mod\<close> file only the paths of the required modules are
  read (\<open>File.Require[i].Mod.Path\<close>); they are the field \<open>Require\<close>.
\<close>

record Module =
  Require :: "string list"
  RelativeRepoPath :: string
  Latest :: string
  NextVersion :: string
  Changes :: ModuleChange
  FileChanges :: "string list"
  ChangeAnnotations :: "Annotation list"
  ModuleConfig :: ModuleConfig

text \<open>
  The argument \<open>modules\<close> is a Go map from module paths to module records.  It is kept as
  an association list: its order is the order in which a \<open>range\<close> loop visits the map, which
  Go does not fix, so a property that holds for every list holds for every order of
  visit.  A key is looked up with \<^const>\<open>map_of\<close>; the keys of a Go map are distinct.
\<close>

type_synonym ModuleMap = "(string \<times> Module) list"

section \<open>The dependency propagator\<close>

type_synonym DepGraph = "(string \<times> string list) list"

text \<open>\<open>reverseDepGraph[k] = append(reverseDepGraph[k], v)\<close>.\<close>

fun addEdge :: "string \<Rightarrow> string \<Rightarrow> DepGraph \<Rightarrow> DepGraph" where
  "addEdge k v [] = [(k, [v])]"
| "addEdge k v ((k', vs) # g) =
     (if k' = k then (k', vs @ [v]) # g else (k', vs) # addEdge k v g)"

definition addRequires :: "ModuleMap \<Rightarrow> string \<Rightarrow> DepGraph \<Rightarrow> string list \<Rightarrow> DepGraph" where
  "addRequires modules modulePath g requires =
     foldl (\<lambda>g requireModPath.
              if map_of modules requireModPath = None then g
              else addEdge requireModPath modulePath g) g requires"

definition buildInverseDependencyGraph :: "ModuleMap \<Rightarrow> DepGraph" where
  "buildInverseDependencyGraph modules =
     foldl (\<lambda>g (modulePath, m). addRequires modules modulePath g (Require m)) [] modules"

text \<open>\<open>reverseDepGraph[current]\<close>: the empty slice for a key that is not in the map.\<close>

definition dependentsOf :: "DepGraph \<Rightarrow> string \<Rightarrow> string list" where
  "dependentsOf g k = (case map_of g k of None \<Rightarrow> [] | Some ds \<Rightarrow> ds)"

text \<open>
  Modelled from the spec: \<open>repotools.AppendIfNotPresent\<close> is not among the sources; a
  dependent is "re-enqueued", and the name says that a value already in the list is not
  added again.
\<close>

definition AppendIfNotPresent :: "string list \<Rightarrow> string \<Rightarrow> string list" where
  "AppendIfNotPresent xs x = (if x \<in> set xs then xs else xs @ [x])"

text \<open>\<open>modules[k].Changes = c\<close>, through the pointer the map holds for \<open>k\<close>.\<close>

fun setChanges :: "string \<Rightarrow> ModuleChange \<Rightarrow> ModuleMap \<Rightarrow> ModuleMap" where
  "setChanges k c [] = []"
| "setChanges k c ((k', m) # ms) =
     (if k' = k then (k', m\<lparr>Changes := c\<rparr>) # ms else (k', m) # setChanges k c ms)"

text \<open>
  The inner loop over the dependents of the current module.  Reading a field of
  \<open>modules[dependent]\<close> for a key that is not in the map is a nil dereference.
\<close>

fun markDependents ::
  "DepGraph \<Rightarrow> string list \<Rightarrow> ModuleMap \<Rightarrow> string list \<Rightarrow> error + ModuleMap \<times> string list" where
  "markDependents g [] modules toVisit = Inr (modules, toVisit)"
| "markDependents g (dependent # ds) modules toVisit =
     (case map_of modules dependent of
        None \<Rightarrow> Inl NilDereference
      | Some dependentModule \<Rightarrow>
          if Changes dependentModule AND DependencyUpdate \<noteq> 0
          then markDependents g ds modules toVisit
          else markDependents g ds
                 (setChanges dependent (Changes dependentModule OR DependencyUpdate) modules)
                 (if map_of g dependent \<noteq> None then AppendIfNotPresent toVisit dependent
                  else toVisit))"

text \<open>The body of the work-list loop for the module \<open>current\<close> popped from the list.\<close>

definition visit ::
  "DepGraph \<Rightarrow> ModuleMap \<Rightarrow> string \<Rightarrow> string list \<Rightarrow> error + ModuleMap \<times> string list" where
  "visit g modules current toVisit =
     (case map_of modules current of
        None \<Rightarrow> Inl NilDereference
      | Some m \<Rightarrow>
          if Changes m = 0 then Inr (modules, toVisit)
          else if NoTag (ModuleConfig m) \<and> dependentsOf g current \<noteq> []
          then Inl UntaggedModuleHasDependents
          else if NoTag (ModuleConfig m) then Inr (modules, toVisit)
          else markDependents g (dependentsOf g current) modules toVisit)"

text \<open>The number of modules that do not carry the dependency-updated flag.\<close>

definition unflagged :: "ModuleMap \<Rightarrow> nat" where
  "unflagged modules = length (filter (\<lambda>(k, m). Changes m AND DependencyUpdate = 0) modules)"

function visitLoop :: "DepGraph \<Rightarrow> ModuleMap \<Rightarrow> string list \<Rightarrow> error + ModuleMap" where
  "visitLoop g modules [] = Inr modules"
| "visitLoop g modules (current # toVisit) =
     (case visit g modules current toVisit of
        Inl e \<Rightarrow> Inl e
      | Inr (modules', toVisit') \<Rightarrow> visitLoop g modules' toVisit')"
  by pat_completeness auto
termination
proof (relation "measure (\<lambda>(g, modules, toVisit). unflagged modules + length toVisit)")
  show "wf (measure (\<lambda>(g, modules, toVisit). unflagged modules + length toVisit))"
    by simp
next
  fix g :: DepGraph and modules :: ModuleMap and current :: string and toVisit :: "string list"
    and x2 modules' toVisit'
  assume step: "visit g modules current toVisit = Inr x2" "(modules', toVisit') = x2"
  have nz: "DependencyUpdate \<noteq> 0"
    by (simp add: DependencyUpdate_def)
  have flag: "(c OR DependencyUpdate) AND DependencyUpdate \<noteq> 0" for c :: ModuleChange
  proof -
    have "(c OR DependencyUpdate) AND DependencyUpdate = DependencyUpdate"
      by (simp add: bit_eq_iff bit_and_iff bit_or_iff)
    then show ?thesis
      using nz by simp
  qed
  have upd: "unflagged (setChanges k (Changes m OR DependencyUpdate) ms) < unflagged ms"
    if "map_of ms k = Some m" "Changes m AND DependencyUpdate = 0" for k m ms
    using that
  proof (induction ms)
    case Nil
    then show ?case by simp
  next
    case (Cons km ms)
    obtain k' m' where km: "km = (k', m')"
      by (cases km)
    show ?case
    proof (cases "k' = k")
      case True
      with Cons.prems km have "m' = m"
        by simp
      with True km Cons.prems(2) flag [of "Changes m"] show ?thesis
        by (simp add: unflagged_def)
    next
      case False
      with Cons km show ?thesis
        by (simp add: unflagged_def)
    qed
  qed
  have mark: "unflagged ms' + length tv' \<le> unflagged ms + length tv"
    if "markDependents g ds ms tv = Inr (ms', tv')" for ds ms tv ms' tv'
    using that
  proof (induction ds arbitrary: ms tv)
    case Nil
    then show ?case by simp
  next
    case (Cons d ds)
    from Cons.prems obtain dm where dm: "map_of ms d = Some dm"
      by (auto split: option.splits)
    show ?case
    proof (cases "Changes dm AND DependencyUpdate \<noteq> 0")
      case True
      with Cons dm show ?thesis by simp
    next
      case False
      let ?ms = "setChanges d (Changes dm OR DependencyUpdate) ms"
      let ?tv = "if map_of g d \<noteq> None then AppendIfNotPresent tv d else tv"
      from Cons.prems dm False have "markDependents g ds ?ms ?tv = Inr (ms', tv')"
        by simp
      then have "unflagged ms' + length tv' \<le> unflagged ?ms + length ?tv"
        by (rule Cons.IH)
      moreover have "unflagged ?ms < unflagged ms"
        using dm False by (intro upd) simp_all
      moreover have "length ?tv \<le> Suc (length tv)"
        by (simp add: AppendIfNotPresent_def)
      ultimately show ?thesis
        by linarith
    qed
  qed
  from step have "unflagged modules' + length toVisit' \<le> unflagged modules + length toVisit"
    by (auto simp: visit_def split: option.splits if_splits dest: mark)
  then show "((g, modules', toVisit'), (g, modules, current # toVisit))
      \<in> measure (\<lambda>(g, modules, toVisit). unflagged modules + length toVisit)"
    by simp
qed

declare visitLoop.simps [simp del]

text \<open>
  \<open>CalculateDependencyUpdates\<close> changes the module records in place and returns an error or
  \<open>nil\<close>; the model returns the module map as it stands when the function returns \<open>nil\<close>.
\<close>

definition CalculateDependencyUpdates :: "ModuleMap \<Rightarrow> error + ModuleMap" where
  "CalculateDependencyUpdates modules =
     (let reverseDepGraph = buildInverseDependencyGraph modules;
          toVisit = sort (map fst reverseDepGraph)
      in visitLoop reverseDepGraph modules toVisit)"

section \<open>Notions used to state the properties\<close>

text \<open>
  The layers of a tree are its lists of siblings: the top-level list and, for every node,
  the list of its children.
\<close>

fun layersOf :: "ModuleTreeNode \<Rightarrow> ModuleTreeNode list list" where
  "layersOf (Node a r subs at) = subs # concat (map layersOf subs)"

definition layers :: "ModuleTreeNode list \<Rightarrow> ModuleTreeNode list list" where
  "layers nodes = nodes # concat (map layersOf nodes)"

text \<open>No node of a layer is a path-ancestor of another node of the layer.\<close>

definition siblingsUnrelated :: "ModuleTreeNode list \<Rightarrow> bool" where
  "siblingsUnrelated layer =
     (\<forall>i < length layer. \<forall>j < length layer.
        i \<noteq> j \<longrightarrow> \<not> AncestorOf (layer ! i) (Path (layer ! j)))"

text \<open>
  The depth-first order of the spec: a node, then the nodes below it, then its siblings to
  the right.
\<close>

fun depthFirst :: "ModuleTreeNode list \<Rightarrow> ModuleTreeNode list" where
  "depthFirst [] = []"
| "depthFirst (Node a r subs at # nodes) =
     Node a r subs at # depthFirst subs @ depthFirst nodes"

text \<open>
  The invariant of a layer in the form the proofs use: the paths of the layer are distinct,
  no path is an ancestor of another one, and the layer is sorted by path.  A node is well
  formed when every layer below it satisfies this.
\<close>

definition layerOK :: "ModuleTreeNode list \<Rightarrow> bool" where
  "layerOK ns =
     (distinct (map relPath ns)
      \<and> (\<forall>x \<in> set ns. \<forall>y \<in> set ns.
            relPath x \<noteq> relPath y \<longrightarrow> \<not> ancestorPath (relPath x) (relPath y))
      \<and> sorted (map relPath ns))"

fun wfNode :: "ModuleTreeNode \<Rightarrow> bool" where
  "wfNode (Node a r subs at) = (layerOK subs \<and> (\<forall>s \<in> set subs. wfNode s))"

definition wfLayer :: "ModuleTreeNode list \<Rightarrow> bool" where
  "wfLayer ns = (layerOK ns \<and> (\<forall>n \<in> set ns. wfNode n))"

text \<open>All orders in which the elements of a list can be arranged (used to run through them).\<close>

fun insertEverywhere :: "'a \<Rightarrow> 'a list \<Rightarrow> 'a list list" where
  "insertEverywhere x [] = [[x]]"
| "insertEverywhere x (y # ys) = (x # y # ys) # map ((#) y) (insertEverywhere x ys)"

fun arrangements :: "'a list \<Rightarrow> 'a list list" where
  "arrangements [] = [[]]"
| "arrangements (x # xs) = concat (map (insertEverywhere x) (arrangements xs))"

section \<open>Properties of the version calculator\<close>

lemma Parse_Canonical_v1_0_0:
  "Parse (Canonical ''v1.0.0'') =
     (\<lparr>Major = ''1'', Minor = ''0'', Patch = ''0'', Short = [], Prerelease = [],
       Build = []\<rparr>, True)"
  by code_simp

lemma Parse_Canonical_v1_0_1:
  "Parse (Canonical ''v1.0.1'') =
     (\<lparr>Major = ''1'', Minor = ''0'', Patch = ''1'', Short = [], Prerelease = [],
       Build = []\<rparr>, True)"
  by code_simp

lemma Parse_Canonical_v1_1_0_preview_1:
  "Parse (Canonical ''v1.1.0-preview.1'') =
     (\<lparr>Major = ''1'', Minor = ''1'', Patch = ''0'', Short = [],
       Prerelease = ''-preview.1'', Build = []\<rparr>, True)"
  by code_simp

lemma Parse_Canonical_v1_1_0_rc_5:
  "Parse (Canonical ''v1.1.0-rc.5'') =
     (\<lparr>Major = ''1'', Minor = ''1'', Patch = ''0'', Short = [],
       Prerelease = ''-rc.5'', Build = []\<rparr>, True)"
  by code_simp

lemma Parse_Canonical_no_v: "Parse (Canonical ''1.1.0'') = (emptyParsed, False)"
  by code_simp

lemma incrementStrInt_0: "incrementStrInt ''0'' = Inr ''1''"
  by code_simp

lemma incrementStrInt_1: "incrementStrInt ''1'' = Inr ''2''"
  by code_simp

lemma incrementPrerelease_preview_1:
  "incrementPrerelease ''-preview.1'' ''preview'' = Inr ''-preview.2''"
  by code_simp

lemma GetVersionIncrement_Nil: "GetVersionIncrement [] = DefaultBump"
  by (simp add: GetVersionIncrement_def)

lemma GetVersionIncrement_single:
  "GetVersionIncrement [a] = (if Bump a = DefaultBump then DefaultBump else Bump a)"
  by (cases "Bump a") (simp_all add: GetVersionIncrement_def)

lemma new_module_preview:
  assumes "SplitPathVersion modulePath = (prefix, [], True)" and "PreRelease config = []"
  shows "CalculateNextVersion modulePath [] config [] [] = Inr ''v1.0.0-preview''"
  using assms
  by (simp add: CalculateNextVersion_def GetVersionIncrement_Nil getNewModuleVersion_def
      TrimPrefix_def HasPrefix_def)

lemma new_module_release:
  assumes "SplitPathVersion modulePath = (prefix, [], True)" and "Bump release = ReleaseBump"
  shows "CalculateNextVersion modulePath [] config [release] [] = Inr ''v1.0.0''"
  using assms
  by (simp add: CalculateNextVersion_def GetVersionIncrement_single getNewModuleVersion_def
      TrimPrefix_def HasPrefix_def)

lemma existing_patch:
  assumes "SplitPathVersion modulePath = (prefix, pathMajor, True)"
    and "PreRelease config = []"
  shows "CalculateNextVersion modulePath ''v1.0.0'' config [] [] = Inr ''v1.0.1''"
proof -
  have cand: "candidateVersion
      \<lparr>Major = ''1'', Minor = ''0'', Patch = ''0'', Short = [], Prerelease = [], Build = []\<rparr>
      DefaultBump config [] = Inr ''v1.0.1''"
    using assms(2)
    by (simp add: candidateVersion_def calculateNextVersion_def incrementStrInt_0
        ParsedString_def)
  have cmp: "\<not> Compare ''v1.0.1'' ''v1.0.0'' \<le> 0"
    by code_simp
  show ?thesis
    using assms(1) cmp
    by (simp add: CalculateNextVersion_def GetVersionIncrement_Nil Parse_Canonical_v1_0_0 cand)
qed

lemma existing_minor:
  assumes "SplitPathVersion modulePath = (prefix, pathMajor, True)"
    and "PreRelease config = []" and "Bump feature = MinorBump"
  shows "CalculateNextVersion modulePath ''v1.0.1'' config [feature] [] = Inr ''v1.1.0''"
proof -
  have cand: "candidateVersion
      \<lparr>Major = ''1'', Minor = ''0'', Patch = ''1'', Short = [], Prerelease = [], Build = []\<rparr>
      MinorBump config [] = Inr ''v1.1.0''"
    using assms(2)
    by (simp add: candidateVersion_def calculateNextVersion_def incrementStrInt_0
        ParsedString_def)
  have cmp: "\<not> Compare ''v1.1.0'' ''v1.0.1'' \<le> 0"
    by code_simp
  show ?thesis
    using assms(1,3) cmp
    by (simp add: CalculateNextVersion_def GetVersionIncrement_single
        Parse_Canonical_v1_0_1 cand)
qed

lemma existing_preview:
  assumes "SplitPathVersion modulePath = (prefix, pathMajor, True)"
    and "PreRelease previewConfig = ''preview''" and "Bump feature = MinorBump"
  shows "CalculateNextVersion modulePath ''v1.1.0-preview.1'' previewConfig [feature] []
           = Inr ''v1.1.0-preview.2''"
proof -
  have cand: "candidateVersion
      \<lparr>Major = ''1'', Minor = ''1'', Patch = ''0'', Short = [], Prerelease = ''-preview.1'',
        Build = []\<rparr>
      MinorBump previewConfig [] = Inr ''v1.1.0-preview.2''"
    using assms(2)
    by (simp add: candidateVersion_def calculateNextVersion_def incrementPrerelease_preview_1
        ParsedString_def)
  have cmp: "\<not> Compare ''v1.1.0-preview.2'' ''v1.1.0-preview.1'' \<le> 0"
    by code_simp
  show ?thesis
    using assms(1,3) cmp
    by (simp add: CalculateNextVersion_def GetVersionIncrement_single
        Parse_Canonical_v1_1_0_preview_1 cand)
qed

lemma existing_release:
  assumes "SplitPathVersion modulePath = (prefix, pathMajor, True)"
    and "Bump release = ReleaseBump"
  shows "CalculateNextVersion modulePath ''v1.1.0-rc.5'' config [release] [] = Inr ''v1.1.0''"
proof -
  have cand: "candidateVersion
      \<lparr>Major = ''1'', Minor = ''1'', Patch = ''0'', Short = [], Prerelease = ''-rc.5'',
        Build = []\<rparr>
      ReleaseBump config [] = Inr ''v1.1.0''"
    by (simp add: candidateVersion_def calculateNextVersion_def ParsedString_def)
  have cmp: "\<not> Compare ''v1.1.0'' ''v1.1.0-rc.5'' \<le> 0"
    by code_simp
  show ?thesis
    using assms cmp
    by (simp add: CalculateNextVersion_def GetVersionIncrement_single
        Parse_Canonical_v1_1_0_rc_5 cand)
qed

lemma missing_v_is_error:
  assumes "SplitPathVersion modulePath = (prefix, pathMajor, True)"
  shows "CalculateNextVersion modulePath ''1.1.0'' config [] [] = Inl SemverParseFailed"
  using assms
  by (simp add: CalculateNextVersion_def Parse_Canonical_no_v)

text \<open>
  Claim C1.  The version table of the spec, for a module path without a major-version
  suffix (\<open>SplitPathVersion\<close> accepts it and returns an empty suffix), no preview
  identifier, and a module configuration without a pre-release track unless the row names
  one: a new module without annotations gets \<open>v1.0.0-preview\<close>; a new module with a release
  annotation gets \<open>v1.0.0\<close>; \<open>v1.0.0\<close> without annotations gives \<open>v1.0.1\<close>; \<open>v1.0.1\<close> with a
  feature (minor) annotation gives \<open>v1.1.0\<close>; \<open>v1.1.0-preview.1\<close> with a feature annotation
  and the configured track \<open>preview\<close> gives \<open>v1.1.0-preview.2\<close>; \<open>v1.1.0-rc.5\<close> with a release
  annotation gives \<open>v1.1.0\<close>; the prior tag \<open>1.1.0\<close> without the leading \<open>v\<close> is an error.
\<close>

theorem C1_version_table:
  assumes "SplitPathVersion modulePath = (prefix, [], True)"
    and "PreRelease config = []"
    and "PreRelease previewConfig = ''preview''"
    and "Bump release = ReleaseBump"
    and "Bump feature = MinorBump"
  shows "CalculateNextVersion modulePath [] config [] [] = Inr ''v1.0.0-preview''
       \<and> CalculateNextVersion modulePath [] config [release] [] = Inr ''v1.0.0''
       \<and> CalculateNextVersion modulePath ''v1.0.0'' config [] [] = Inr ''v1.0.1''
       \<and> CalculateNextVersion modulePath ''v1.0.1'' config [feature] [] = Inr ''v1.1.0''
       \<and> CalculateNextVersion modulePath ''v1.1.0-preview.1'' previewConfig [feature] []
           = Inr ''v1.1.0-preview.2''
       \<and> CalculateNextVersion modulePath ''v1.1.0-rc.5'' config [release] [] = Inr ''v1.1.0''
       \<and> CalculateNextVersion modulePath ''1.1.0'' config [] [] = Inl SemverParseFailed"
  using new_module_preview [OF assms(1,2)] new_module_release [OF assms(1,4)]
    existing_patch [OF assms(1,2)] existing_minor [OF assms(1,2,5)]
    existing_preview [OF assms(1,3,5)] existing_release [OF assms(1,4)]
    missing_v_is_error [OF assms(1)]
  by simp

lemma SplitPathVersion_shinynew:
  "SplitPathVersion ''github.com/aws/aws-sdk-go-v2/service/shinynew''
     = (''github.com/aws/aws-sdk-go-v2/service/shinynew'', [], True)"
  by code_simp

theorem C1_version_table_witness:
  "CalculateNextVersion ''github.com/aws/aws-sdk-go-v2/service/shinynew'' []
      \<lparr>NoTag = False, PreRelease = [], MetadataPackage = []\<rparr> [] [] = Inr ''v1.0.0-preview''
   \<and> CalculateNextVersion ''github.com/aws/aws-sdk-go-v2/service/shinynew'' []
      \<lparr>NoTag = False, PreRelease = [], MetadataPackage = []\<rparr>
      [\<lparr>ID = ''release-1'', Bump = ReleaseBump, Modules = []\<rparr>] [] = Inr ''v1.0.0''
   \<and> CalculateNextVersion ''github.com/aws/aws-sdk-go-v2/service/shinynew'' ''v1.0.0''
      \<lparr>NoTag = False, PreRelease = [], MetadataPackage = []\<rparr> [] [] = Inr ''v1.0.1''
   \<and> CalculateNextVersion ''github.com/aws/aws-sdk-go-v2/service/shinynew'' ''v1.0.1''
      \<lparr>NoTag = False, PreRelease = [], MetadataPackage = []\<rparr>
      [\<lparr>ID = ''feature-1'', Bump = MinorBump, Modules = []\<rparr>] [] = Inr ''v1.1.0''
   \<and> CalculateNextVersion ''github.com/aws/aws-sdk-go-v2/service/shinynew''
      ''v1.1.0-preview.1'' \<lparr>NoTag = False, PreRelease = ''preview'', MetadataPackage = []\<rparr>
      [\<lparr>ID = ''feature-1'', Bump = MinorBump, Modules = []\<rparr>] [] = Inr ''v1.1.0-preview.2''
   \<and> CalculateNextVersion ''github.com/aws/aws-sdk-go-v2/service/shinynew'' ''v1.1.0-rc.5''
      \<lparr>NoTag = False, PreRelease = [], MetadataPackage = []\<rparr>
      [\<lparr>ID = ''release-1'', Bump = ReleaseBump, Modules = []\<rparr>] [] = Inr ''v1.1.0''
   \<and> CalculateNextVersion ''github.com/aws/aws-sdk-go-v2/service/shinynew'' ''1.1.0''
      \<lparr>NoTag = False, PreRelease = [], MetadataPackage = []\<rparr> [] [] = Inl SemverParseFailed"
  by (rule C1_version_table [OF SplitPathVersion_shinynew]) simp_all

text \<open>
  Claim C2.  For a non-empty prior version, whatever the module path, the configuration,
  the annotations and the preview identifier: a version that \<open>CalculateNextVersion\<close> returns
  compares strictly greater than the prior version (\<open>Compare\<close> is positive), and when the
  candidate computed from the parsed prior version is not strictly greater, the result is
  the error \<open>VersionNotIncreasing\<close> and no version.
\<close>

theorem C2_next_version_increases:
  assumes "latest \<noteq> []"
  shows "(\<forall>next. CalculateNextVersion modulePath latest config annotations preview = Inr next
            \<longrightarrow> 0 < Compare next latest)
       \<and> (\<forall>prefix pathMajor parsed candidate.
            SplitPathVersion modulePath = (prefix, pathMajor, True)
            \<and> Parse (Canonical latest) = (parsed, True)
            \<and> candidateVersion parsed (GetVersionIncrement annotations) config preview
                = Inr candidate
            \<and> Compare candidate latest \<le> 0
            \<longrightarrow> CalculateNextVersion modulePath latest config annotations preview
                = Inl VersionNotIncreasing)"
  using assms
  by (auto simp: CalculateNextVersion_def Let_def split: prod.splits if_splits sum.splits)

theorem C2_next_version_increases_witness:
  "CalculateNextVersion ''github.com/aws/aws-sdk-go-v2/service/existing'' ''v1.0.9''
      \<lparr>NoTag = False, PreRelease = [], MetadataPackage = []\<rparr> [] ''rc'' = Inr ''v1.0.10-rc''
   \<and> 0 < Compare ''v1.0.10-rc'' ''v1.0.9''
   \<and> candidateVersion (fst (Parse (Canonical ''v1.1.0-rc.5'')))
        (GetVersionIncrement [\<lparr>ID = ''feature-1'', Bump = MinorBump, Modules = []\<rparr>])
        \<lparr>NoTag = False, PreRelease = ''alpha'', MetadataPackage = []\<rparr> [] = Inr ''v1.1.0-alpha''
   \<and> Compare ''v1.1.0-alpha'' ''v1.1.0-rc.5'' \<le> 0
   \<and> CalculateNextVersion ''github.com/aws/aws-sdk-go-v2/service/existing'' ''v1.1.0-rc.5''
        \<lparr>NoTag = False, PreRelease = ''alpha'', MetadataPackage = []\<rparr>
        [\<lparr>ID = ''feature-1'', Bump = MinorBump, Modules = []\<rparr>] [] = Inl VersionNotIncreasing"
proof -
  have run: "CalculateNextVersion ''github.com/aws/aws-sdk-go-v2/service/existing'' ''v1.0.9''
      \<lparr>NoTag = False, PreRelease = [], MetadataPackage = []\<rparr> [] ''rc'' = Inr ''v1.0.10-rc''"
    by code_simp
  have split: "SplitPathVersion ''github.com/aws/aws-sdk-go-v2/service/existing''
      = (''github.com/aws/aws-sdk-go-v2/service/existing'', [], True)"
    by code_simp
  have parsed: "Parse (Canonical ''v1.1.0-rc.5'')
      = (fst (Parse (Canonical ''v1.1.0-rc.5'')), True)"
    by (simp add: Parse_Canonical_v1_1_0_rc_5)
  have cand: "candidateVersion (fst (Parse (Canonical ''v1.1.0-rc.5'')))
        (GetVersionIncrement [\<lparr>ID = ''feature-1'', Bump = MinorBump, Modules = []\<rparr>])
        \<lparr>NoTag = False, PreRelease = ''alpha'', MetadataPackage = []\<rparr> [] = Inr ''v1.1.0-alpha''"
    by code_simp
  have cmp: "Compare ''v1.1.0-alpha'' ''v1.1.0-rc.5'' \<le> 0"
    by code_simp
  have nonempty: "''v1.0.9'' \<noteq> []" "''v1.1.0-rc.5'' \<noteq> []"
    by simp_all
  from C2_next_version_increases [OF nonempty(1)] run
  have gt: "0 < Compare ''v1.0.10-rc'' ''v1.0.9''"
    by blast
  from C2_next_version_increases [OF nonempty(2)] split parsed cand cmp
  have err: "CalculateNextVersion ''github.com/aws/aws-sdk-go-v2/service/existing''
        ''v1.1.0-rc.5'' \<lparr>NoTag = False, PreRelease = ''alpha'', MetadataPackage = []\<rparr>
        [\<lparr>ID = ''feature-1'', Bump = MinorBump, Modules = []\<rparr>] [] = Inl VersionNotIncreasing"
    by blast
  show ?thesis
    using run gt cand cmp err by simp
qed

section \<open>Properties of the change filter\<close>

text \<open>
  Claim C3, as stated, fails: with \<open>sub1\<close> as the only registered sub-module of \<open>.\<close>, the
  file \<open>sub2/bar.go\<close> belongs to \<open>.\<close> as well, so the result is not
  \<open>["foo.go", "sub3/foo.go"]\<close>.
\<close>

theorem C3_single_submodule_counterexample:
  "fst (FilterModuleFiles (Node ''.'' ''.'' [Node ''sub1'' ''sub1'' [] []] [])
         [''sub3/foo.go'', ''sub2/bar.go'', ''sub1/baz.go'', ''foo.go''])
     \<noteq> [''foo.go'', ''sub3/foo.go'']"
  by code_simp

text \<open>
  Claim C3, amended.  For module \<open>.\<close> and the files
  \<open>["sub3/foo.go", "sub2/bar.go", "sub1/baz.go", "foo.go"]\<close>: with the single registered
  sub-module \<open>sub1\<close> the result is \<open>["foo.go", "sub2/bar.go", "sub3/foo.go"]\<close>; with the two
  registered sub-modules \<open>sub1\<close> and \<open>sub2\<close> it is \<open>["foo.go", "sub3/foo.go"]\<close>; with no
  sub-module it is all four files, sorted.  The error result is \<open>nil\<close> each time.
\<close>

theorem C3_filter_examples:
  "FilterModuleFiles (Node ''.'' ''.'' [Node ''sub1'' ''sub1'' [] []] [])
      [''sub3/foo.go'', ''sub2/bar.go'', ''sub1/baz.go'', ''foo.go'']
     = ([''foo.go'', ''sub2/bar.go'', ''sub3/foo.go''], None)
   \<and> FilterModuleFiles
      (Node ''.'' ''.'' [Node ''sub1'' ''sub1'' [] [], Node ''sub2'' ''sub2'' [] []] [])
      [''sub3/foo.go'', ''sub2/bar.go'', ''sub1/baz.go'', ''foo.go'']
     = ([''foo.go'', ''sub3/foo.go''], None)
   \<and> FilterModuleFiles (Node ''.'' ''.'' [] [])
      [''sub3/foo.go'', ''sub2/bar.go'', ''sub1/baz.go'', ''foo.go'']
     = ([''foo.go'', ''sub1/baz.go'', ''sub2/bar.go'', ''sub3/foo.go''], None)"
  by code_simp

text \<open>
  Claim C10.  For every module tree node and every list of file paths, the error result of
  \<open>FilterModuleFiles\<close> is \<open>nil\<close>, and so is the error result of \<open>IsModuleChanged\<close>.
\<close>

theorem C10_filter_never_fails:
  "snd (FilterModuleFiles module files) = None \<and> snd (IsModuleChanged module files) = None"
  by (simp add: FilterModuleFiles_def IsModuleChanged_def Let_def)

section \<open>Properties of the module tree\<close>

text \<open>
  Claim C5 at the input that shows the defect: with the root \<open>/foo/bar\<close>, inserting
  \<open>/foo/baz\<close>, which is not nested under the root, is no error; \<open>filepath.Rel\<close> answers
  \<open>../baz\<close> and the node is inserted with that relative path.
\<close>

theorem C5_outside_root_is_inserted:
  "Insert (NewModuleTree ''/foo/bar'') ''/foo/baz'' []
     = Inr (Node ''/foo/baz'' ''../baz'' [] [],
            \<lparr>RootPath = ''/foo/bar'', treeModules = [Node ''/foo/baz'' ''../baz'' [] []]\<rparr>)"
  by code_simp

lemma insertEverywhere_mem: "ys @ x # zs \<in> set (insertEverywhere x (ys @ zs))"
proof (induction ys)
  case Nil
  show ?case by (cases zs) simp_all
next
  case (Cons y ys)
  then show ?case by simp
qed

lemma arrangements_complete: "mset ps = mset xs \<Longrightarrow> ps \<in> set (arrangements xs)"
proof (induction xs arbitrary: ps)
  case Nil
  then show ?case by simp
next
  case (Cons x xs)
  then have "x \<in> set ps"
    by (metis list.set_intros(1) mset_eq_setD)
  then obtain ys zs where ps: "ps = ys @ x # zs"
    by (meson split_list)
  with Cons.prems have "mset (ys @ zs) = mset xs"
    by simp
  then have "ys @ zs \<in> set (arrangements xs)"
    by (rule Cons.IH)
  then show ?case
    using insertEverywhere_mem [of ys x zs] ps by auto
qed

lemma five_paths_every_order:
  "list_all
     (\<lambda>ps. insertAll (NewModuleTree []) (map (\<lambda>p. (p, [])) ps) =
        Inr \<lparr>RootPath = [], treeModules =
          [Node ''a'' ''a'' [Node ''a/b'' ''a/b'' [] [], Node ''a/f/g'' ''a/f/g'' [] []] [],
           Node ''c'' ''c'' [] [], Node ''e/f/g'' ''e/f/g'' [] []]\<rparr>)
     (arrangements [''a/f/g'', ''a'', ''a/b'', ''c'', ''e/f/g''])"
  by code_simp

text \<open>
  Claim C4.  Inserted one by one into an empty tree (no root path, no attributes), in any
  order, the five paths \<open>a/f/g\<close>, \<open>a\<close>, \<open>a/b\<close>, \<open>c\<close>, \<open>e/f/g\<close> are all accepted and give the
  same tree: the top-level siblings \<open>a\<close>, \<open>c\<close>, \<open>e/f/g\<close>, where \<open>a\<close> has exactly the children
  \<open>a/b\<close> and \<open>a/f/g\<close>.
\<close>

theorem C4_insertion_order_independence:
  assumes "mset ps = mset [''a/f/g'', ''a'', ''a/b'', ''c'', ''e/f/g'']"
  shows "insertAll (NewModuleTree []) (map (\<lambda>p. (p, [])) ps) =
     Inr \<lparr>RootPath = [], treeModules =
       [Node ''a'' ''a'' [Node ''a/b'' ''a/b'' [] [], Node ''a/f/g'' ''a/f/g'' [] []] [],
        Node ''c'' ''c'' [] [], Node ''e/f/g'' ''e/f/g'' [] []]\<rparr>"
  using arrangements_complete [OF assms] five_paths_every_order
  unfolding list_all_iff by blast

theorem C4_insertion_order_independence_witness:
  "insertAll (NewModuleTree []) (map (\<lambda>p. (p, [])) [''e/f/g'', ''a/b'', ''c'', ''a'', ''a/f/g'']) =
     Inr \<lparr>RootPath = [], treeModules =
       [Node ''a'' ''a'' [Node ''a/b'' ''a/b'' [] [], Node ''a/f/g'' ''a/f/g'' [] []] [],
        Node ''c'' ''c'' [] [], Node ''e/f/g'' ''e/f/g'' [] []]\<rparr>"
  by (rule C4_insertion_order_independence) simp

lemma wfNode_iff: "wfNode n = wfLayer (subModules n)"
  by (cases n) (simp add: wfLayer_def)

lemma layerOK_Nil: "layerOK []"
  by (simp add: layerOK_def)

lemma mset_sortNodes: "mset (sortNodes ns) = mset ns"
  by (simp add: sortNodes_def)

lemma set_sortNodes: "set (sortNodes ns) = set ns"
  by (simp add: sortNodes_def)

lemma sorted_sortNodes: "sorted (map relPath (sortNodes ns))"
  by (simp add: sortNodes_def)

lemma reparent_rest:
  "reparent rel acc ns = (c, rest) \<Longrightarrow> rest = filter (\<lambda>n. \<not> ancestorPath rel (Path n)) ns"
  by (induction ns arbitrary: acc c rest) (auto split: if_splits prod.splits)

lemma reparent_children:
  "reparent rel acc ns = (c, rest)
     \<Longrightarrow> mset c = mset acc + mset (filter (\<lambda>n. ancestorPath rel (Path n)) ns)"
  by (induction ns arbitrary: acc c rest) (auto split: if_splits prod.splits simp: mset_sortNodes)

lemma reparent_sorted:
  "reparent rel acc ns = (c, rest) \<Longrightarrow> sorted (map relPath acc) \<Longrightarrow> sorted (map relPath c)"
  by (induction ns arbitrary: acc c rest) (auto split: if_splits prod.splits simp: sorted_sortNodes)

lemma splitAncestor_None:
  "splitAncestor path ns = None \<Longrightarrow> n \<in> set ns \<Longrightarrow> \<not> AncestorOf n path"
  by (induction ns) (auto split: if_splits option.splits)

lemma splitAncestor_Some:
  "splitAncestor path ns = Some (pre, m, post) \<Longrightarrow> ns = pre @ m # post"
  by (induction ns arbitrary: pre) (auto split: if_splits option.splits)

lemma layerOK_sub:
  assumes ok: "layerOK ns" and sub: "mset c = mset (filter P ns)"
    and srt: "sorted (map relPath c)"
  shows "layerOK c"
proof -
  have "mset (map relPath c) = mset (map relPath (filter P ns))"
    using sub by (metis mset_map)
  moreover have "distinct (map relPath (filter P ns))"
    using ok by (simp add: layerOK_def distinct_map_filter)
  ultimately have d: "distinct (map relPath c)"
    using mset_eq_imp_distinct_iff by blast
  have "set c \<subseteq> set ns"
    using mset_eq_setD [OF sub] by auto
  with ok d srt show ?thesis
    unfolding layerOK_def by blast
qed

lemma layerOK_same_paths:
  "map relPath ns' = map relPath ns \<Longrightarrow> layerOK ns \<Longrightarrow> layerOK ns'"
proof -
  assume eq: "map relPath ns' = map relPath ns" and ok: "layerOK ns"
  have img: "relPath ` set ns' = relPath ` set ns"
    using arg_cong [OF eq, of set] by simp
  have "\<not> ancestorPath (relPath x) (relPath y)"
    if "x \<in> set ns'" "y \<in> set ns'" "relPath x \<noteq> relPath y" for x y
  proof -
    from that(1) img obtain x' where x': "x' \<in> set ns" "relPath x' = relPath x"
      by (metis imageE imageI)
    from that(2) img obtain y' where y': "y' \<in> set ns" "relPath y' = relPath y"
      by (metis imageE imageI)
    from ok x' y' that(3) show ?thesis
      unfolding layerOK_def by metis
  qed
  with eq ok show ?thesis
    by (simp add: layerOK_def)
qed

lemma ancestorPath_refl: "ancestorPath p p"
  by (simp add: ancestorPath_def)

lemma placeNode_wf:
  assumes wf: "wfLayer nodes"
    and none: "splitAncestor rel nodes = None"
    and place: "placeNode mp rel attrs nodes = (newNode, nodes')"
  shows "wfLayer nodes'"
proof -
  obtain children rest where rp: "reparent rel [] nodes = (children, rest)"
    by (cases "reparent rel [] nodes")
  from place rp have newNode: "newNode = Node mp rel children attrs"
    and nodes': "nodes' = sortNodes (rest @ [newNode])"
    by (auto simp: placeNode_def Let_def)
  have rest: "rest = filter (\<lambda>n. \<not> ancestorPath rel (Path n)) nodes"
    using rp by (rule reparent_rest)
  have ch: "mset children = mset (filter (\<lambda>n. ancestorPath rel (Path n)) nodes)"
    using reparent_children [OF rp] by simp
  have chs: "sorted (map relPath children)"
    using reparent_sorted [OF rp] by simp
  have ok: "layerOK nodes" and sub: "\<forall>n \<in> set nodes. wfNode n"
    using wf by (simp_all add: wfLayer_def)
  have okc: "layerOK children"
    using ok ch chs by (rule layerOK_sub)
  have setc: "set children \<subseteq> set nodes"
    using mset_eq_setD [OF ch] by auto
  have wfnew: "wfNode newNode"
    using okc setc sub by (auto simp: newNode)
  have setn: "set nodes' = insert newNode (set rest)"
    by (simp add: nodes' set_sortNodes)
  have wfall: "\<forall>n \<in> set nodes'. wfNode n"
    using wfnew sub by (auto simp: setn rest)
  have relnew: "relPath newNode = rel"
    by (simp add: newNode)
  have notin: "rel \<notin> relPath ` set rest"
    using ancestorPath_refl [of rel] by (auto simp: rest Path_def)
  have drest: "distinct (map relPath rest)"
    using ok by (simp add: layerOK_def rest distinct_map_filter)
  have "mset (map relPath nodes') = mset (map relPath (rest @ [newNode]))"
    by (simp add: nodes' mset_sortNodes)
  moreover have "distinct (map relPath (rest @ [newNode]))"
    using drest notin by (simp add: relnew)
  ultimately have d: "distinct (map relPath nodes')"
    using mset_eq_imp_distinct_iff by blast
  have unrel: "\<forall>x \<in> set nodes'. \<forall>y \<in> set nodes'.
      relPath x \<noteq> relPath y \<longrightarrow> \<not> ancestorPath (relPath x) (relPath y)"
  proof (intro ballI impI)
    fix x y
    assume x: "x \<in> set nodes'" and y: "y \<in> set nodes'" and ne: "relPath x \<noteq> relPath y"
    consider "x = newNode" "y \<in> set rest" | "x \<in> set rest" "y = newNode"
      | "x \<in> set rest" "y \<in> set rest" | "x = newNode" "y = newNode"
      using x y by (auto simp: setn)
    then show "\<not> ancestorPath (relPath x) (relPath y)"
    proof cases
      case 1
      then show ?thesis by (simp add: rest relnew Path_def)
    next
      case 2
      then have "x \<in> set nodes" by (simp add: rest)
      from splitAncestor_None [OF none this] 2 show ?thesis
        by (simp add: AncestorOf_def relnew Path_def)
    next
      case 3
      then show ?thesis using ok ne by (auto simp: layerOK_def rest)
    next
      case 4
      with ne show ?thesis by simp
    qed
  qed
  have "layerOK nodes'"
    using d unrel by (simp add: layerOK_def nodes' sorted_sortNodes)
  with wfall show ?thesis
    by (simp add: wfLayer_def)
qed

lemma insertNodes_wf:
  "wfLayer nodes \<Longrightarrow> wfLayer (snd (insertNodes mp rel attrs nodes))"
proof (induction mp rel attrs nodes rule: insertNodes.induct)
  case (1 mp rel attrs nodes)
  show ?case
  proof (cases "splitAncestor rel nodes")
    case None
    then show ?thesis
      using placeNode_wf [OF "1.prems" None] 
      by (cases "placeNode mp rel attrs nodes") (simp add: insertNodes.simps [of mp rel attrs nodes])
  next
    case (Some found)
    obtain pre m post where found: "found = (pre, m, post)"
      by (cases found) auto
    obtain newNode subs where rec: "insertNodes mp rel attrs (subModules m) = (newNode, subs)"
      by (cases "insertNodes mp rel attrs (subModules m)")
    have nodes: "nodes = pre @ m # post"
      using Some found splitAncestor_Some by blast
    let ?m' = "Node (absPath m) (relPath m) subs (attributes m)"
    have res: "snd (insertNodes mp rel attrs nodes) = pre @ ?m' # post"
      using Some found rec by (simp add: insertNodes.simps [of mp rel attrs nodes])
    have wfm: "wfNode m" and ok: "layerOK nodes" and all: "\<forall>n \<in> set nodes. wfNode n"
      using "1.prems" by (simp_all add: wfLayer_def nodes)
    then have "wfLayer (subModules m)"
      by (simp add: wfNode_iff)
    from "1.IH" [OF Some found [symmetric] refl this] rec
    have "wfLayer subs"
      by simp
    then have wfm': "wfNode ?m'"
      by (simp add: wfLayer_def)
    have "layerOK (pre @ ?m' # post)"
      by (rule layerOK_same_paths [OF _ ok]) (simp add: nodes)
    moreover have "\<forall>n \<in> set (pre @ ?m' # post). wfNode n"
      using wfm' all unfolding nodes by auto
    ultimately have "wfLayer (pre @ ?m' # post)"
      unfolding wfLayer_def by blast
    then show ?thesis
      unfolding res .
  qed
qed


lemma Insert_wf:
  assumes "wfLayer (treeModules t)" and "Insert t modulePath attrs = Inr (newNode, t')"
  shows "wfLayer (treeModules t')"
proof -
  from assms(2) obtain rel nodes where
    "insertNodes modulePath rel attrs (treeModules t) = (newNode, nodes)"
    and "t' = t\<lparr>treeModules := nodes\<rparr>"
    by (auto simp: Insert_def split: sum.splits if_splits prod.splits)
  with insertNodes_wf [OF assms(1), of modulePath rel attrs] show ?thesis
    by simp
qed

lemma insertAll_wf:
  "wfLayer (treeModules t) \<Longrightarrow> insertAll t ops = Inr t' \<Longrightarrow> wfLayer (treeModules t')"
proof (induction ops arbitrary: t)
  case Nil
  then show ?case by simp
next
  case (Cons op ops)
  obtain modulePath attrs where op: "op = (modulePath, attrs)"
    by (cases op)
  from Cons.prems(2) obtain newNode t1 where step: "Insert t modulePath attrs = Inr (newNode, t1)"
    and rest: "insertAll t1 ops = Inr t'"
    by (auto simp: op split: sum.splits)
  from Insert_wf [OF Cons.prems(1) step] rest show ?case
    by (rule Cons.IH)
qed

lemma wfNode_layersOf: "wfNode n \<Longrightarrow> layer \<in> set (layersOf n) \<Longrightarrow> layerOK layer"
  by (induction n arbitrary: layer) auto

lemma wfLayer_layers: "wfLayer nodes \<Longrightarrow> layer \<in> set (layers nodes) \<Longrightarrow> layerOK layer"
  by (auto simp: wfLayer_def layers_def dest: wfNode_layersOf)

lemma layerOK_siblingsUnrelated: "layerOK layer \<Longrightarrow> siblingsUnrelated layer"
  unfolding siblingsUnrelated_def
proof (intro allI impI)
  fix i j
  assume ok: "layerOK layer" and i: "i < length layer" and j: "j < length layer" and ne: "i \<noteq> j"
  from ok have "distinct (map relPath layer)"
    by (simp add: layerOK_def)
  with i j ne have "relPath (layer ! i) \<noteq> relPath (layer ! j)"
    by (metis length_map nth_eq_iff_index_eq nth_map)
  with ok i j show "\<not> AncestorOf (layer ! i) (Path (layer ! j))"
    by (simp add: layerOK_def AncestorOf_def Path_def)
qed

lemma layerOK_sorted: "layerOK layer \<Longrightarrow> sorted (map Path layer)"
proof -
  have "Path = relPath"
    by (rule ext) (simp add: Path_def)
  then show "layerOK layer \<Longrightarrow> sorted (map Path layer)"
    by (simp add: layerOK_def)
qed

lemma depthFirst_append: "depthFirst (xs @ ys) = depthFirst xs @ depthFirst ys"
  by (induction xs rule: depthFirst.induct) simp_all

lemma depthFirst_Cons: "depthFirst (n # ns) = n # depthFirst (subModules n) @ depthFirst ns"
  by (cases n) simp

lemma iterate_depthFirst: "iterate it list = list @ depthFirst (rev it)"
proof (induction it list rule: iterate.induct)
  case (1 it list)
  show ?case
  proof (cases "it = []")
    case True
    then show ?thesis
      by (simp add: iterate.simps [of "[]" list] Next_def Pop_def)
  next
    case False
    then have nx: "Next it = (Some (last it), butlast it @ rev (subModules (last it)))"
      by (simp add: Next_def Pop_def PushReverse_def)
    have "rev (butlast it @ [last it]) = last it # rev (butlast it)"
      by simp
    with False have rv: "rev it = last it # rev (butlast it)"
      by simp
    have df: "depthFirst (rev it)
        = last it # depthFirst (subModules (last it)) @ depthFirst (rev (butlast it))"
      unfolding rv by (rule depthFirst_Cons)
    from "1.IH" [OF nx [symmetric] refl]
    have "iterate (butlast it @ rev (subModules (last it))) (list @ [last it])
        = (list @ [last it]) @ depthFirst (rev (butlast it @ rev (subModules (last it))))" .
    then show ?thesis
      by (simp add: iterate.simps [of it list] nx df depthFirst_append)
  qed
qed

lemma NodeList_depthFirst: "NodeList n = depthFirst (subModules n)"
  by (simp add: NodeList_def newModuleTreeNodesIterator_def PushReverse_def iterate_depthFirst)

lemma TreeList_foldl:
  "foldl (\<lambda>list n. (list @ [n]) @ NodeList n) acc nodes = acc @ depthFirst nodes"
  by (induction nodes arbitrary: acc) (simp_all add: depthFirst_Cons NodeList_depthFirst)

lemma TreeList_depthFirst: "TreeList t = depthFirst (treeModules t)"
  unfolding TreeList_def TreeList_foldl by simp

lemma TreeIterator_depthFirst: "iterate (TreeIterator t) [] = depthFirst (treeModules t)"
  by (simp add: TreeIterator_def newModuleTreeNodesIterator_def PushReverse_def iterate_depthFirst)

text \<open>
  Claim C7.  After any sequence of successful \<open>Insert\<close> operations on a new tree
  (whatever its root path, whatever the paths and attributes inserted), in every layer of
  the tree no node is a path-ancestor of another node of the layer, every layer is sorted
  ascending by relative path, and \<open>List\<close> as well as the iterator (\<open>Next\<close> until \<open>nil\<close>) give
  the nodes in depth-first order, each layer in its stored, sorted order.
\<close>

theorem C7_tree_invariant:
  assumes "insertAll (NewModuleTree root) ops = Inr t"
  shows "(\<forall>layer \<in> set (layers (treeModules t)).
            siblingsUnrelated layer \<and> sorted (map Path layer))
       \<and> TreeList t = depthFirst (treeModules t)
       \<and> iterate (TreeIterator t) [] = depthFirst (treeModules t)"
proof -
  have "wfLayer (treeModules (NewModuleTree root))"
    by (simp add: NewModuleTree_def wfLayer_def layerOK_Nil)
  then have "wfLayer (treeModules t)"
    using assms by (rule insertAll_wf)
  then have "\<forall>layer \<in> set (layers (treeModules t)). layerOK layer"
    using wfLayer_layers by blast
  then show ?thesis
    using layerOK_siblingsUnrelated layerOK_sorted TreeList_depthFirst TreeIterator_depthFirst
    by blast
qed

theorem C7_tree_invariant_witness:
  "insertAll (NewModuleTree [])
      [(''.'', []), (''service/s3/internal/configtest'', []), (''service/s3'', [''tombstone''])]
     = Inr \<lparr>RootPath = [], treeModules =
         [Node ''.'' ''.''
            [Node ''service/s3'' ''service/s3''
               [Node ''service/s3/internal/configtest'' ''service/s3/internal/configtest'' [] []]
               [''tombstone'']] []]\<rparr>
   \<and> list_all (\<lambda>layer. siblingsUnrelated layer \<and> sorted (map Path layer))
        (layers
          [Node ''.'' ''.''
            [Node ''service/s3'' ''service/s3''
               [Node ''service/s3/internal/configtest'' ''service/s3/internal/configtest'' [] []]
               [''tombstone'']] []])
   \<and> map Path (TreeList \<lparr>RootPath = [], treeModules =
         [Node ''.'' ''.''
            [Node ''service/s3'' ''service/s3''
               [Node ''service/s3/internal/configtest'' ''service/s3/internal/configtest'' [] []]
               [''tombstone'']] []]\<rparr>)
       = [''.'', ''service/s3'', ''service/s3/internal/configtest'']"
  (is "?run \<and> ?layers \<and> ?list")
proof -
  have run: ?run
    by code_simp
  note inv = C7_tree_invariant [OF run]
  from inv have ?layers
    unfolding list_all_iff by simp
  moreover from inv have ?list
    by (simp add: Path_def)
  ultimately show ?thesis
    using run by blast
qed

end
